theory Spec2Isabelle
  imports Main
begin

section \<open>Values of the JavaScript runtime\<close>

text \<open>
  The handlers of \<^verbatim>\<open>server.js\<close> read the fields of \<^verbatim>\<open>req.body\<close>, which
  \<^verbatim>\<open>express.json()\<close> has parsed from JSON. A field that is not there reads as
  \<^verbatim>\<open>undefined\<close>. The tests \<^verbatim>\<open>!email\<close>, \<^verbatim>\<open>!password\<close> and \<^verbatim>\<open>role || "user"\<close> use
  JavaScript's truthiness. Numbers are kept as integers: the handlers only test a
  number for being zero.
\<close>

datatype json =
    JUndefined
  | JNull
  | JBool bool
  | JNum int
  | JStr string
  | JArr "json list"
  | JObj "(string \<times> json) list"

fun truthy :: "json \<Rightarrow> bool" where
  "truthy JUndefined = False"
| "truthy JNull = False"
| "truthy (JBool b) = b"
| "truthy (JNum n) = (n \<noteq> 0)"
| "truthy (JStr s) = (s \<noteq> [])"
| "truthy (JArr xs) = True"
| "truthy (JObj kvs) = True"

text \<open>\<^verbatim>\<open>a || b\<close>\<close>

definition js_or :: "json \<Rightarrow> json \<Rightarrow> json" where
  "js_or a b = (if truthy a then a else b)"

text \<open>Reading a property of the parsed body: \<^verbatim>\<open>const { email } = req.body\<close>.\<close>

definition get_prop :: "(string \<rightharpoonup> json) \<Rightarrow> string \<Rightarrow> json" where
  "get_prop obj k = (case obj k of None \<Rightarrow> JUndefined | Some v \<Rightarrow> v)"

text \<open>
  \<^verbatim>\<open>s.split(" ")\<close>: the pieces of \<open>s\<close> between the occurrences of the separator; the
  result is never empty (\<^verbatim>\<open>"".split(" ")\<close> is \<^verbatim>\<open>[""]\<close>).
\<close>

fun split :: "char \<Rightarrow> string \<Rightarrow> string list" where
  "split sep [] = [[]]"
| "split sep (c # cs) =
     (if c = sep then [] # split sep cs
      else (case split sep cs of
              [] \<Rightarrow> [[c]]
            | w # ws \<Rightarrow> (c # w) # ws))"

section \<open>Data model\<close>

text \<open>
  Modelled from the spec: the Prisma schema of the \<^verbatim>\<open>User\<close> model is not under
  \<^verbatim>\<open>src/\<close>. The spec gives its fields: a system-generated unique id, a unique
  email, the password hash, and a role string.
\<close>

record user =
  u_id :: nat
  u_email :: string
  u_password :: string
  u_role :: string

text \<open>\<^verbatim>\<open>res.json(user)\<close> serialises the record with all its fields.\<close>

definition user_json :: "user \<Rightarrow> json" where
  "user_json u =
     JObj [(''id'', JNum (int (u_id u))),
           (''email'', JStr (u_email u)),
           (''password'', JStr (u_password u)),
           (''role'', JStr (u_role u))]"

text \<open>
  The payload of a token. \<^verbatim>\<open>jwt.sign\<close> is given \<^verbatim>\<open>userId\<close> and \<^verbatim>\<open>role\<close> and
  adds \<^verbatim>\<open>iat\<close> and \<^verbatim>\<open>exp\<close>; \<^verbatim>\<open>jwt.verify\<close> returns whatever payload was signed,
  so the two claims are JSON values and the time stamps are optional.
\<close>

record claims =
  c_userId :: json
  c_role :: json
  c_iat :: "nat option"
  c_nbf :: "nat option"
  c_exp :: "nat option"

datatype body = Text string | Json json

record response =
  status :: nat
  body :: body

record request =
  authorization :: "string option"
  req_body :: "string \<rightharpoonup> json"
  req_user :: "claims option"

text \<open>
  What a handler can throw. An \<^verbatim>\<open>async\<close> handler that throws outside a
  \<^verbatim>\<open>try\<close> sends no response of its own: its result is the exception.
\<close>

datatype exn =
    BcryptIllegalArguments
  | PrismaClientValidationError
  | PrismaUniqueConstraintError
  | JwtSecretMissing
  | TypeError

datatype jwt_error = JsonWebTokenError | NotBeforeError | TokenExpiredError

text \<open>
  The calls a handler makes to its collaborators, in order. The server's own state is
  the credential store; the log records as well when a password was hashed or
  compared and when a token was signed.
\<close>

datatype call = Hash | Create | FindUnique | Compare | Sign

record world =
  users :: "user list"
  calls :: "call list"

definition log :: "call \<Rightarrow> world \<Rightarrow> world" where
  "log c w = w\<lparr>calls := calls w @ [c]\<rparr>"

section \<open>The collaborators\<close>

text \<open>
  The primitives of \<^verbatim>\<open>bcryptjs\<close> and \<^verbatim>\<open>jsonwebtoken\<close> are parameters: the salted
  hash of a string (with the cost and the salt drawn for this call), its check, and
  the signed encoding of a payload under a key with the decoding that checks the
  signature.
\<close>

record libs =
  bcrypt_hash :: "string \<Rightarrow> nat \<Rightarrow> string \<Rightarrow> string"
  bcrypt_compare :: "string \<Rightarrow> string \<Rightarrow> bool"
  jwt_encode :: "string \<Rightarrow> claims \<Rightarrow> string"
  jwt_decode :: "string \<Rightarrow> string \<Rightarrow> claims option"

text \<open>
  \<^verbatim>\<open>bcrypt.hash(password, 10)\<close> and \<^verbatim>\<open>bcrypt.compare(password, hash)\<close> reject
  with "Illegal arguments" when the password is not a string.
\<close>

definition hash :: "libs \<Rightarrow> json \<Rightarrow> nat \<Rightarrow> string \<Rightarrow> exn + string" where
  "hash L password rounds salt =
     (case password of
        JStr p \<Rightarrow> Inr (bcrypt_hash L p rounds salt)
      | _ \<Rightarrow> Inl BcryptIllegalArguments)"

definition compare :: "libs \<Rightarrow> json \<Rightarrow> string \<Rightarrow> exn + bool" where
  "compare L password hashed =
     (case password of
        JStr p \<Rightarrow> Inr (bcrypt_compare L p hashed)
      | _ \<Rightarrow> Inl BcryptIllegalArguments)"

text \<open>
  \<^verbatim>\<open>jwt.sign(payload, secret, { expiresIn })\<close> at the time \<open>now\<close> (in seconds): it
  throws when the secret is missing or empty, and otherwise stamps the payload with
  \<^verbatim>\<open>iat = now\<close> and \<^verbatim>\<open>exp = now + expiresIn\<close> and signs it.
\<close>

definition sign :: "libs \<Rightarrow> claims \<Rightarrow> string option \<Rightarrow> nat \<Rightarrow> nat \<Rightarrow> exn + string" where
  "sign L payload secret expiresIn now =
     (case secret of
        None \<Rightarrow> Inl JwtSecretMissing
      | Some k \<Rightarrow>
          if k = [] then Inl JwtSecretMissing
          else Inr (jwt_encode L k
                 (payload\<lparr>c_iat := Some now, c_exp := Some (now + expiresIn)\<rparr>)))"

text \<open>
  \<^verbatim>\<open>jwt.verify(token, secret, callback)\<close> at the time \<open>now\<close>: the error of the
  callback, or the decoded payload. A token is refused when no secret is configured,
  when its signature does not verify, before its \<^verbatim>\<open>nbf\<close> and from its \<^verbatim>\<open>exp\<close> on.
\<close>

definition verify :: "libs \<Rightarrow> string \<Rightarrow> string option \<Rightarrow> nat \<Rightarrow> jwt_error + claims" where
  "verify L token secret now =
     (case secret of
        None \<Rightarrow> Inl JsonWebTokenError
      | Some k \<Rightarrow>
          if k = [] then Inl JsonWebTokenError
          else (case jwt_decode L k token of
                  None \<Rightarrow> Inl JsonWebTokenError
                | Some payload \<Rightarrow>
                    if (case c_nbf payload of None \<Rightarrow> False | Some t \<Rightarrow> now < t)
                    then Inl NotBeforeError
                    else if (case c_exp payload of None \<Rightarrow> False | Some t \<Rightarrow> t \<le> now)
                    then Inl TokenExpiredError
                    else Inr payload))"

text \<open>
  Modelled from the spec: the Prisma client over the \<^verbatim>\<open>User\<close> model, which is not
  under \<^verbatim>\<open>src/\<close>. \<^verbatim>\<open>prisma.user.create\<close> refuses data that is not of the
  schema's types and an email that is already stored, and otherwise stores the record
  under a fresh id; \<^verbatim>\<open>prisma.user.findUnique\<close> returns the record of an email, or
  \<^verbatim>\<open>null\<close>, and refuses a \<^verbatim>\<open>where\<close> whose email is not a string.
\<close>

definition find_email :: "string \<Rightarrow> user list \<Rightarrow> user option" where
  "find_email e us = List.find (\<lambda>u. u_email u = e) us"

definition create :: "json \<Rightarrow> string \<Rightarrow> json \<Rightarrow> world \<Rightarrow> (exn + user) \<times> world" where
  "create email hashedPassword role w =
     (let w1 = log Create w in
      case email of
        JStr e \<Rightarrow>
          (case role of
             JStr r \<Rightarrow>
               (case find_email e (users w1) of
                  Some existing \<Rightarrow> (Inl PrismaUniqueConstraintError, w1)
                | None \<Rightarrow>
                    (let u = \<lparr>u_id = Suc (length (users w1)), u_email = e,
                               u_password = hashedPassword, u_role = r\<rparr>
                     in (Inr u, w1\<lparr>users := users w1 @ [u]\<rparr>)))
           | _ \<Rightarrow> (Inl PrismaClientValidationError, w1))
      | _ \<Rightarrow> (Inl PrismaClientValidationError, w1))"

definition findUnique :: "json \<Rightarrow> world \<Rightarrow> (exn + user option) \<times> world" where
  "findUnique email w =
     (let w1 = log FindUnique w in
      case email of
        JStr e \<Rightarrow> (Inr (find_email e (users w1)), w1)
      | _ \<Rightarrow> (Inl PrismaClientValidationError, w1))"

section \<open>The handlers\<close>

definition send :: "nat \<Rightarrow> string \<Rightarrow> response" where
  "send code text = \<lparr>status = code, body = Text text\<rparr>"

text \<open>
  \<^verbatim>\<open>res.sendStatus(code)\<close> sends the status with its standard phrase as the body.
  The phrases are those of the three codes that \<^verbatim>\<open>server.js\<close> sends this way.
\<close>

definition sendStatus :: "nat \<Rightarrow> response" where
  "sendStatus code =
     send code (if code = 200 then ''OK''
                else if code = 401 then ''Unauthorized''
                else if code = 403 then ''Forbidden''
                else [])"

text \<open>
  \<^verbatim>\<open>POST /register\<close>. \<open>salt\<close> is the salt that \<^verbatim>\<open>bcrypt.hash\<close> draws for this
  request.
\<close>

definition register :: "libs \<Rightarrow> string \<Rightarrow> request \<Rightarrow> world \<Rightarrow> (exn + response) \<times> world" where
  "register L salt req w =
     (let email = get_prop (req_body req) ''email'';
          password = get_prop (req_body req) ''password'';
          role = get_prop (req_body req) ''role''
      in if \<not> truthy email \<or> \<not> truthy password
         then (Inr (send 400 ''Email and password are required''), w)
         else (case hash L password 10 salt of
                 Inl e \<Rightarrow> (Inl e, log Hash w)
               | Inr hashedPassword \<Rightarrow>
                   (case create email hashedPassword (js_or role (JStr ''user'')) (log Hash w) of
                      (Inr u, w') \<Rightarrow> (Inr \<lparr>status = 201, body = Json (user_json u)\<rparr>, w')
                    | (Inl error, w') \<Rightarrow> (Inr (send 400 ''User already exists''), w'))))"

text \<open>\<^verbatim>\<open>POST /login\<close>. \<open>secret\<close> is \<^verbatim>\<open>process.env.JWT_SECRET\<close>.\<close>

definition login ::
  "libs \<Rightarrow> string option \<Rightarrow> nat \<Rightarrow> request \<Rightarrow> world \<Rightarrow> (exn + response) \<times> world" where
  "login L secret now req w =
     (let email = get_prop (req_body req) ''email'';
          password = get_prop (req_body req) ''password''
      in case findUnique email w of
           (Inl e, w1) \<Rightarrow> (Inl e, w1)
         | (Inr None, w1) \<Rightarrow> (Inr (send 401 ''Invalid email or password''), w1)
         | (Inr (Some u), w1) \<Rightarrow>
             (case compare L password (u_password u) of
                Inl e \<Rightarrow> (Inl e, log Compare w1)
              | Inr ok \<Rightarrow>
                  if \<not> ok then (Inr (send 401 ''Invalid email or password''), log Compare w1)
                  else (case sign L \<lparr>c_userId = JNum (int (u_id u)), c_role = JStr (u_role u),
                                      c_iat = None, c_nbf = None, c_exp = None\<rparr>
                               secret 3600 now of
                          Inl e \<Rightarrow> (Inl e, log Sign (log Compare w1))
                        | Inr token \<Rightarrow>
                            (Inr \<lparr>status = 200, body = Json (JObj [(''token'', JStr token)])\<rparr>,
                             log Sign (log Compare w1)))))"

text \<open>\<^verbatim>\<open>POST /logout\<close>\<close>

definition logout :: "request \<Rightarrow> world \<Rightarrow> (exn + response) \<times> world" where
  "logout req w = (Inr (sendStatus 200), w)"

section \<open>The middleware and the protected routes\<close>

text \<open>
  A middleware sends a response, or passes the request (which it may have extended) to
  the next one, or throws.
\<close>

datatype step = Sent response | Next request | Thrown exn

text \<open>\<^verbatim>\<open>req.headers.authorization?.split(" ")[1]\<close>\<close>

definition bearer :: "string option \<Rightarrow> string option" where
  "bearer header =
     (case header of
        None \<Rightarrow> None
      | Some h \<Rightarrow>
          (let parts = split CHR '' '' h
           in if 1 < length parts then Some (parts ! 1) else None))"

definition authenticateJWT :: "libs \<Rightarrow> string option \<Rightarrow> nat \<Rightarrow> request \<Rightarrow> step" where
  "authenticateJWT L secret now req =
     (case bearer (authorization req) of
        None \<Rightarrow> Sent (sendStatus 401)
      | Some token \<Rightarrow>
          if token \<noteq> [] then
            (case verify L token secret now of
               Inl err \<Rightarrow> Sent (sendStatus 403)
             | Inr u \<Rightarrow> Next (req\<lparr>req_user := Some u\<rparr>))
          else Sent (sendStatus 401))"

definition authorizeAdmin :: "request \<Rightarrow> step" where
  "authorizeAdmin req =
     (case req_user req of
        None \<Rightarrow> Thrown TypeError
      | Some u \<Rightarrow>
          if c_role u \<noteq> JStr ''admin'' then Sent (sendStatus 403)
          else Next req)"

text \<open>
  \<^verbatim>\<open>app.get(path, m1, m2, handler)\<close>: each function runs only when the one before it
  called \<^verbatim>\<open>next()\<close>.
\<close>

fun chain :: "(request \<Rightarrow> step) list \<Rightarrow> request \<Rightarrow> step" where
  "chain [] req = Next req"
| "chain (m # ms) req =
     (case m req of
        Next req' \<Rightarrow> chain ms req'
      | Sent r \<Rightarrow> Sent r
      | Thrown e \<Rightarrow> Thrown e)"

definition admin_handler :: "request \<Rightarrow> step" where
  "admin_handler req = Sent (send 200 ''Welcome Admin'')"

definition user_handler :: "request \<Rightarrow> step" where
  "user_handler req = Sent (send 200 ''Welcome User'')"

definition get_admin :: "libs \<Rightarrow> string option \<Rightarrow> nat \<Rightarrow> request \<Rightarrow> step" where
  "get_admin L secret now = chain [authenticateJWT L secret now, authorizeAdmin, admin_handler]"

definition get_user :: "libs \<Rightarrow> string option \<Rightarrow> nat \<Rightarrow> request \<Rightarrow> step" where
  "get_user L secret now = chain [authenticateJWT L secret now, user_handler]"

section \<open>Derived notions and test doubles\<close>

text \<open>
  The payload of the token that \<^verbatim>\<open>POST /login\<close> signs for the user \<open>u\<close> at the
  time \<open>now\<close>, as \<^verbatim>\<open>jwt.sign\<close> stamps it with \<^verbatim>\<open>expiresIn: "1h"\<close>.
\<close>

definition issued :: "user \<Rightarrow> nat \<Rightarrow> claims" where
  "issued u now =
     \<lparr>c_userId = JNum (int (u_id u)), c_role = JStr (u_role u),
      c_iat = Some now, c_nbf = None, c_exp = Some (now + 3600)\<rparr>"

text \<open>A request to a protected route that presents \<open>token\<close> as a bearer token.\<close>

definition with_bearer :: "string \<Rightarrow> request" where
  "with_bearer token =
     \<lparr>authorization = Some (''Bearer '' @ token), req_body = Map.empty, req_user = None\<rparr>"

text \<open>A request whose body carries an email and a password.\<close>

definition credentials :: "string \<Rightarrow> string \<Rightarrow> request" where
  "credentials e p =
     \<lparr>authorization = None,
      req_body = [''email'' \<mapsto> JStr e, ''password'' \<mapsto> JStr p],
      req_user = None\<rparr>"

definition empty_world :: world where
  "empty_world = \<lparr>users = [], calls = []\<rparr>"

text \<open>
  Stand-ins for the two libraries, used to run the handlers on concrete requests: a
  salted hash that its check accepts, and a token codec that knows the two payloads of
  the scenario below (user 1, logged in at time 1000, as a user or as an admin).
\<close>

definition test_libs :: libs where
  "test_libs =
     \<lparr>bcrypt_hash = (\<lambda>p rounds salt. salt @ rev p),
      bcrypt_compare = (\<lambda>p h. length p \<le> length h \<and> drop (length h - length p) h = rev p),
      jwt_encode = (\<lambda>k c. (if c_role c = JStr ''admin'' then ''jwt.admin.'' else ''jwt.user.'') @ k),
      jwt_decode = (\<lambda>k t.
         if t = ''jwt.admin.'' @ k
         then Some \<lparr>c_userId = JNum 1, c_role = JStr ''admin'', c_iat = Some 1000,
                    c_nbf = None, c_exp = Some 4600\<rparr>
         else if t = ''jwt.user.'' @ k
         then Some \<lparr>c_userId = JNum 1, c_role = JStr ''user'', c_iat = Some 1000,
                    c_nbf = None, c_exp = Some 4600\<rparr>
         else None)\<rparr>"

text \<open>A store that holds one user, registered with the password \<^verbatim>\<open>pw1\<close>.\<close>

definition alice_world :: world where
  "alice_world =
     \<lparr>users = [\<lparr>u_id = 1, u_email = ''a@x.com'', u_password = ''salt1wp'', u_role = ''user''\<rparr>],
      calls = []\<rparr>"

text \<open>A request whose body carries an email and nothing else.\<close>

definition email_only :: "string \<Rightarrow> request" where
  "email_only e =
     \<lparr>authorization = None, req_body = [''email'' \<mapsto> JStr e], req_user = None\<rparr>"

text \<open>A request whose body carries a password and nothing else.\<close>

definition password_only :: "string \<Rightarrow> request" where
  "password_only p =
     \<lparr>authorization = None, req_body = [''password'' \<mapsto> JStr p], req_user = None\<rparr>"

text \<open>The same request with a \<^verbatim>\<open>role\<close> field added to its body.\<close>

definition with_role :: "string \<Rightarrow> request \<Rightarrow> request" where
  "with_role r req = req\<lparr>req_body := (req_body req)(''role'' \<mapsto> JStr r)\<rparr>"

section \<open>Facts about the collaborators and the handlers\<close>

lemma split_no_sep: "sep \<notin> set s \<Longrightarrow> split sep s = [s]"
  by (induction s) auto

lemma bearer_Bearer: "CHR '' '' \<notin> set t \<Longrightarrow> bearer (Some (''Bearer '' @ t)) = Some t"
  by (simp add: bearer_def split_no_sep)

lemma register_invalid:
  assumes "\<not> truthy (get_prop (req_body req) ''email'') \<or>
           \<not> truthy (get_prop (req_body req) ''password'')"
  shows "register L salt req w = (Inr (send 400 ''Email and password are required''), w)"
  using assms by (auto simp: register_def Let_def)

lemma register_valid:
  assumes "get_prop (req_body req) ''email'' = JStr e" "e \<noteq> []"
      and "get_prop (req_body req) ''password'' = JStr p" "p \<noteq> []"
  shows "register L salt req w =
     (case create (JStr e) (bcrypt_hash L p 10 salt)
             (js_or (get_prop (req_body req) ''role'') (JStr ''user'')) (log Hash w) of
        (Inr u, w') \<Rightarrow> (Inr \<lparr>status = 201, body = Json (user_json u)\<rparr>, w')
      | (Inl error, w') \<Rightarrow> (Inr (send 400 ''User already exists''), w'))"
  using assms by (simp add: register_def Let_def hash_def)

lemma create_fresh:
  assumes "find_email e (users w) = None"
  shows "create (JStr e) h (JStr r) w =
     (Inr \<lparr>u_id = Suc (length (users w)), u_email = e, u_password = h, u_role = r\<rparr>,
      w\<lparr>users := users w @ [\<lparr>u_id = Suc (length (users w)), u_email = e,
                               u_password = h, u_role = r\<rparr>],
        calls := calls w @ [Create]\<rparr>)"
  using assms by (simp add: create_def Let_def log_def)

lemma create_taken:
  assumes "find_email e (users w) = Some u0"
  shows "create (JStr e) h role w = (Inl (if (\<exists>r. role = JStr r) then PrismaUniqueConstraintError else PrismaClientValidationError), log Create w)"
  using assms by (auto simp: create_def Let_def log_def split: json.splits)

lemma find_email_append:
  "find_email e us = None \<Longrightarrow> find_email e (us @ [u]) = (if u_email u = e then Some u else None)"
  by (induction us) (auto simp: find_email_def)

lemma login_found:
  assumes "get_prop (req_body req) ''email'' = JStr e"
      and "get_prop (req_body req) ''password'' = JStr p"
      and "find_email e (users w) = Some u"
      and "bcrypt_compare L p (u_password u)"
      and "k \<noteq> []"
  shows "login L (Some k) now req w =
     (Inr \<lparr>status = 200, body = Json (JObj [(''token'', JStr (jwt_encode L k (issued u now)))])\<rparr>,
      w\<lparr>calls := calls w @ [FindUnique, Compare, Sign]\<rparr>)"
  using assms
  by (simp add: login_def Let_def findUnique_def log_def compare_def sign_def issued_def)

lemma authenticate_issued:
  assumes "jwt_decode L k T = Some c" "c_nbf c = None" "c_exp c = Some x"
      and "k \<noteq> []" "T \<noteq> []" "CHR '' '' \<notin> set T"
      and "authorization rq = Some (''Bearer '' @ T)"
  shows "authenticateJWT L (Some k) t rq =
     (if t < x then Next (rq\<lparr>req_user := Some c\<rparr>) else Sent (sendStatus 403))"
  using assms bearer_Bearer [of T] by (simp add: authenticateJWT_def verify_def)

lemmas run_defs = register_def login_def get_prop_def hash_def create_def findUnique_def
  compare_def sign_def log_def find_email_def js_or_def user_json_def Let_def send_def
  test_libs_def credentials_def empty_world_def alice_world_def

lemma login_token:
  assumes "fst (login L secret t0 req w) =
             Inr \<lparr>status = 200, body = Json (JObj [(''token'', JStr T)])\<rparr>"
  shows "\<exists>u k. secret = Some k \<and> k \<noteq> [] \<and> u \<in> set (users w) \<and>
           T = jwt_encode L k (issued u t0)"
proof -
  obtain res w1 where fu: "findUnique (get_prop (req_body req) ''email'') w = (res, w1)"
    by (cases "findUnique (get_prop (req_body req) ''email'') w")
  from assms fu obtain u where u: "res = Inr (Some u)"
    by (auto simp: login_def Let_def send_def split: sum.splits option.splits)
  from fu u have mem: "u \<in> set (users w)"
    by (auto simp: findUnique_def Let_def log_def find_email_def find_Some_iff split: json.splits)
  from assms fu u obtain k where "secret = Some k" "k \<noteq> []" "T = jwt_encode L k (issued u t0)"
    by (auto simp: login_def Let_def send_def sign_def issued_def
        split: sum.splits option.splits if_splits)
  with mem show ?thesis by blast
qed

section \<open>Logout\<close>

text \<open>
  C9. Every logout request, whatever its headers and body, is answered with 200 and
  leaves the state of the server as it was: the credential store is untouched and no
  collaborator is called. Whether a token is valid is decided by \<open>authenticateJWT\<close>
  from the token, the secret and the clock alone, so a logout cannot change it.
\<close>

theorem logout_unconditional:
  "logout req w = (Inr \<lparr>status = 200, body = Text ''OK''\<rparr>, w)"
  by (simp add: logout_def sendStatus_def send_def)

section \<open>Registration\<close>

text \<open>
  C1, as the spec states it: the body of a successful registration leaves the password
  hash out. It does not: registering \<^verbatim>\<open>a@x.com\<close> with the password \<^verbatim>\<open>pw1\<close> on an
  empty store is answered with 201 and the whole stored record, whose
  \<^verbatim>\<open>password\<close> field is the hash that was stored.
\<close>

theorem register_response_includes_hash:
  "register test_libs ''salt'' (credentials ''a@x.com'' ''pw1'') empty_world =
     (Inr \<lparr>status = 201,
           body = Json (JObj [(''id'', JNum 1), (''email'', JStr ''a@x.com''),
                              (''password'', JStr (bcrypt_hash test_libs ''pw1'' 10 ''salt'')),
                              (''role'', JStr ''user'')])\<rparr>,
      \<lparr>users = [\<lparr>u_id = 1, u_email = ''a@x.com'',
                  u_password = bcrypt_hash test_libs ''pw1'' 10 ''salt'', u_role = ''user''\<rparr>],
       calls = [Hash, Create]\<rparr>)"
  by (simp add: register_def credentials_def empty_world_def get_prop_def hash_def create_def
      log_def find_email_def js_or_def user_json_def test_libs_def Let_def)

text \<open>
  C1, amended: the body of every successful registration (201) is the record that was
  created and stored, with its id, email and role and also its \<^verbatim>\<open>password\<close> field;
  that field holds the hash of the submitted password as \<^verbatim>\<open>bcrypt.hash\<close> returned
  it, not the submitted password itself.
\<close>

theorem register_response_body:
  assumes "register L salt req w = (Inr r, w')" and "status r = 201"
  shows "\<exists>e p u. get_prop (req_body req) ''email'' = JStr e \<and>
           get_prop (req_body req) ''password'' = JStr p \<and>
           users w' = users w @ [u] \<and>
           u_email u = e \<and> u_password u = bcrypt_hash L p 10 salt \<and>
           body r = Json (JObj [(''id'', JNum (int (u_id u))), (''email'', JStr e),
                                (''password'', JStr (bcrypt_hash L p 10 salt)),
                                (''role'', JStr (u_role u))])"
  using assms
  by (auto simp: register_def Let_def hash_def create_def log_def send_def user_json_def
      split: if_splits json.splits option.splits)

theorem register_response_body_witness:
  "\<exists>r w'. register test_libs ''salt'' (credentials ''a@x.com'' ''pw1'') empty_world = (Inr r, w') \<and>
     status r = 201 \<and>
     (\<exists>u. users w' = users empty_world @ [u] \<and> u_email u = ''a@x.com'' \<and>
          u_password u = ''salt1wp'' \<and>
          body r = Json (JObj [(''id'', JNum (int (u_id u))), (''email'', JStr ''a@x.com''),
                               (''password'', JStr ''salt1wp''),
                               (''role'', JStr (u_role u))]))"
proof -
  obtain r w' where run:
    "register test_libs ''salt'' (credentials ''a@x.com'' ''pw1'') empty_world = (Inr r, w')"
    and st: "status r = 201"
    by (simp add: register_def credentials_def empty_world_def get_prop_def hash_def create_def
      log_def find_email_def js_or_def user_json_def test_libs_def Let_def)
  from register_response_body [OF run st] run st show ?thesis
    by (auto simp: credentials_def get_prop_def test_libs_def)
qed

section \<open>Login with missing fields\<close>

text \<open>
  C2. The spec has a registration and a login with a missing email or password fail
  with a validation error before any hashing and any access to the store. The
  registration does (\<open>register_invalid\<close> above: 400 and an untouched world). The login
  has no such check and goes to the store first. On a store that holds the user
  \<^verbatim>\<open>a@x.com\<close>: a login without a password for an unknown email is answered with the
  401 of a failed authentication; a login without a password for \<^verbatim>\<open>a@x.com\<close> throws
  in \<^verbatim>\<open>bcrypt.compare\<close> and sends no response; a login without an email throws in
  \<^verbatim>\<open>prisma.user.findUnique\<close> and sends no response.
\<close>

theorem login_missing_fields_unvalidated:
  "login test_libs (Some ''k'') 1000 (email_only ''b@x.com'') alice_world =
     (Inr \<lparr>status = 401, body = Text ''Invalid email or password''\<rparr>,
      \<lparr>users = users alice_world, calls = [FindUnique]\<rparr>) \<and>
   login test_libs (Some ''k'') 1000 (email_only ''a@x.com'') alice_world =
     (Inl BcryptIllegalArguments,
      \<lparr>users = users alice_world, calls = [FindUnique, Compare]\<rparr>) \<and>
   login test_libs (Some ''k'') 1000 (password_only ''pw1'') alice_world =
     (Inl PrismaClientValidationError,
      \<lparr>users = users alice_world, calls = [FindUnique]\<rparr>)"
  by (simp add: run_defs email_only_def password_only_def)

section \<open>Registration followed by login\<close>

text \<open>
  C3. For an email and a password that are non-empty strings, the email not yet in the
  store, a registration with them (and with no role, or a role that is a string) is
  answered with 201 and the created user: the record with the next id, this email, the
  hash of this password and the given role (or \<^verbatim>\<open>"user"\<close>), which is appended to the
  store. A login with the same email and password right after it is answered with 200
  and the token that \<^verbatim>\<open>jwt.sign\<close> makes under the secret of that user's id and
  role, stamped with the time of the login and an expiry one hour later; the store
  stays as the registration left it. The hypotheses on the collaborators:
  \<^verbatim>\<open>bcrypt.compare\<close> accepts the hash that \<^verbatim>\<open>bcrypt.hash\<close> made of this password,
  and a signing secret is configured.
\<close>

theorem register_then_login:
  assumes "get_prop (req_body req) ''email'' = JStr e" and "e \<noteq> []"
      and "get_prop (req_body req) ''password'' = JStr p" and "p \<noteq> []"
      and "\<not> truthy (get_prop (req_body req) ''role'') \<or>
           (\<exists>r. get_prop (req_body req) ''role'' = JStr r)"
      and "find_email e (users w) = None"
      and "bcrypt_compare L p (bcrypt_hash L p 10 salt)"
      and "secret = Some k" and "k \<noteq> []"
      and "get_prop (req_body req') ''email'' = JStr e"
      and "get_prop (req_body req') ''password'' = JStr p"
  shows "\<exists>u. u_id u = Suc (length (users w)) \<and> u_email u = e \<and>
           u_password u = bcrypt_hash L p 10 salt \<and>
           JStr (u_role u) = js_or (get_prop (req_body req) ''role'') (JStr ''user'') \<and>
           register L salt req w =
             (Inr \<lparr>status = 201, body = Json (user_json u)\<rparr>,
              w\<lparr>users := users w @ [u], calls := calls w @ [Hash, Create]\<rparr>) \<and>
           login L secret now req' (w\<lparr>users := users w @ [u], calls := calls w @ [Hash, Create]\<rparr>) =
             (Inr \<lparr>status = 200,
                   body = Json (JObj [(''token'', JStr (jwt_encode L k (issued u now)))])\<rparr>,
              w\<lparr>users := users w @ [u],
                calls := calls w @ [Hash, Create, FindUnique, Compare, Sign]\<rparr>)"
proof -
  have "\<exists>r. js_or (get_prop (req_body req) ''role'') (JStr ''user'') = JStr r"
    using assms(5) by (cases "truthy (get_prop (req_body req) ''role'')") (auto simp: js_or_def)
  then obtain r where role: "js_or (get_prop (req_body req) ''role'') (JStr ''user'') = JStr r" ..
  define u where "u = \<lparr>u_id = Suc (length (users w)), u_email = e,
                        u_password = bcrypt_hash L p 10 salt, u_role = r\<rparr>"
  define w1 where "w1 = w\<lparr>users := users w @ [u], calls := calls w @ [Hash, Create]\<rparr>"
  have fields: "u_id u = Suc (length (users w))" "u_email u = e"
    "u_password u = bcrypt_hash L p 10 salt"
    "JStr (u_role u) = js_or (get_prop (req_body req) ''role'') (JStr ''user'')"
    by (simp_all add: u_def role)
  have fresh: "find_email e (users (log Hash w)) = None"
    using assms(6) by (simp add: log_def)
  have reg: "register L salt req w = (Inr \<lparr>status = 201, body = Json (user_json u)\<rparr>, w1)"
    using register_valid [OF assms(1-4), of L salt w] create_fresh [OF fresh]
    by (simp add: role u_def w1_def log_def)
  have found: "find_email e (users w1) = Some u"
    using find_email_append [OF assms(6), of u] by (simp add: w1_def u_def)
  have ok: "bcrypt_compare L p (u_password u)"
    using assms(7) by (simp add: u_def)
  have "login L secret now req' w1 =
     (Inr \<lparr>status = 200, body = Json (JObj [(''token'', JStr (jwt_encode L k (issued u now)))])\<rparr>,
      w\<lparr>users := users w @ [u], calls := calls w @ [Hash, Create, FindUnique, Compare, Sign]\<rparr>)"
    using login_found [OF assms(10,11) found ok assms(9), of now] assms(8)
    by (simp add: w1_def)
  with reg fields show ?thesis unfolding w1_def by blast
qed

theorem register_then_login_witness:
  "register test_libs ''salt'' (credentials ''a@x.com'' ''pw1'') empty_world =
     (Inr \<lparr>status = 201,
           body = Json (user_json \<lparr>u_id = 1, u_email = ''a@x.com'', u_password = ''salt1wp'',
                                    u_role = ''user''\<rparr>)\<rparr>,
      \<lparr>users = [\<lparr>u_id = 1, u_email = ''a@x.com'', u_password = ''salt1wp'', u_role = ''user''\<rparr>],
       calls = [Hash, Create]\<rparr>) \<and>
   login test_libs (Some ''k'') 1000 (credentials ''a@x.com'' ''pw1'')
       \<lparr>users = [\<lparr>u_id = 1, u_email = ''a@x.com'', u_password = ''salt1wp'', u_role = ''user''\<rparr>],
        calls = [Hash, Create]\<rparr> =
     (Inr \<lparr>status = 200, body = Json (JObj [(''token'', JStr ''jwt.user.k'')])\<rparr>,
      \<lparr>users = [\<lparr>u_id = 1, u_email = ''a@x.com'', u_password = ''salt1wp'', u_role = ''user''\<rparr>],
       calls = [Hash, Create, FindUnique, Compare, Sign]\<rparr>)"
proof -
  let ?req = "credentials ''a@x.com'' ''pw1''"
  have hyps: "get_prop (req_body ?req) ''email'' = JStr ''a@x.com''" "''a@x.com'' \<noteq> []"
    "get_prop (req_body ?req) ''password'' = JStr ''pw1''" "''pw1'' \<noteq> []"
    "\<not> truthy (get_prop (req_body ?req) ''role'') \<or> (\<exists>r. get_prop (req_body ?req) ''role'' = JStr r)"
    "find_email ''a@x.com'' (users empty_world) = None"
    "bcrypt_compare test_libs ''pw1'' (bcrypt_hash test_libs ''pw1'' 10 ''salt'')"
    "Some ''k'' = Some ''k''" "''k'' \<noteq> []"
    by (simp_all add: run_defs)
  from register_then_login [OF hyps hyps(1,3), of 1000] obtain u where
    u: "u_id u = Suc (length (users empty_world))" "u_email u = ''a@x.com''"
      "u_password u = bcrypt_hash test_libs ''pw1'' 10 ''salt''"
      "JStr (u_role u) = js_or (get_prop (req_body ?req) ''role'') (JStr ''user'')"
    and reg: "register test_libs ''salt'' ?req empty_world =
        (Inr \<lparr>status = 201, body = Json (user_json u)\<rparr>,
         empty_world\<lparr>users := users empty_world @ [u], calls := calls empty_world @ [Hash, Create]\<rparr>)"
    and log: "login test_libs (Some ''k'') 1000 ?req
          (empty_world\<lparr>users := users empty_world @ [u], calls := calls empty_world @ [Hash, Create]\<rparr>) =
        (Inr \<lparr>status = 200,
              body = Json (JObj [(''token'', JStr (jwt_encode test_libs ''k'' (issued u 1000)))])\<rparr>,
         empty_world\<lparr>users := users empty_world @ [u],
           calls := calls empty_world @ [Hash, Create, FindUnique, Compare, Sign]\<rparr>)"
    by blast
  from u have u_eq: "u = \<lparr>u_id = 1, u_email = ''a@x.com'', u_password = ''salt1wp'', u_role = ''user''\<rparr>"
    by (cases u) (simp add: run_defs)
  from reg log show ?thesis
    by (simp add: u_eq empty_world_def issued_def test_libs_def)
qed

section \<open>Failed logins\<close>

text \<open>
  C4. A login for which the store finds no user, and a login for which it finds one
  but \<^verbatim>\<open>bcrypt.compare\<close> refuses the password, are answered alike: both get the
  401 "Invalid email or password", with the same status and the same body, whatever the
  two requests, stores, secrets and times are.
\<close>

theorem login_failures_uniform:
  assumes "fst (findUnique (get_prop (req_body req1) ''email'') w1) = Inr None"
      and "fst (findUnique (get_prop (req_body req2) ''email'') w2) = Inr (Some u)"
      and "compare L (get_prop (req_body req2) ''password'') (u_password u) = Inr False"
  shows "fst (login L secret1 now1 req1 w1) =
           Inr \<lparr>status = 401, body = Text ''Invalid email or password''\<rparr> \<and>
         fst (login L secret2 now2 req2 w2) = fst (login L secret1 now1 req1 w1)"
proof -
  have "fst (login L secret1 now1 req1 w1) = Inr (send 401 ''Invalid email or password'')"
    using assms(1)
    by (cases "findUnique (get_prop (req_body req1) ''email'') w1") (simp add: login_def Let_def)
  moreover have "fst (login L secret2 now2 req2 w2) = Inr (send 401 ''Invalid email or password'')"
    using assms(2,3)
    by (cases "findUnique (get_prop (req_body req2) ''email'') w2") (simp add: login_def Let_def)
  ultimately show ?thesis by (simp add: send_def)
qed

theorem login_failures_uniform_witness:
  "fst (login test_libs (Some ''k'') 1000 (credentials ''b@x.com'' ''pw1'') alice_world) =
     Inr \<lparr>status = 401, body = Text ''Invalid email or password''\<rparr> \<and>
   fst (login test_libs (Some ''k'') 2000 (credentials ''a@x.com'' ''wrong'') alice_world) =
     fst (login test_libs (Some ''k'') 1000 (credentials ''b@x.com'' ''pw1'') alice_world)"
proof -
  have "fst (findUnique (get_prop (req_body (credentials ''b@x.com'' ''pw1'')) ''email'') alice_world)
          = Inr None"
    by (simp add: run_defs)
  moreover have "fst (findUnique (get_prop (req_body (credentials ''a@x.com'' ''wrong'')) ''email'')
          alice_world) = Inr (Some (hd (users alice_world)))"
    by (simp add: run_defs)
  moreover have "compare test_libs (get_prop (req_body (credentials ''a@x.com'' ''wrong'')) ''password'')
          (u_password (hd (users alice_world))) = Inr False"
    by (simp add: run_defs)
  ultimately show ?thesis
    by (rule login_failures_uniform)
qed

section \<open>Duplicate registration\<close>

text \<open>
  C7. A registration whose email is already in the store leaves the store's records as
  they were, the existing record included, whatever else the request carries; and
  when it supplies a password (a non-empty string, whichever it is) it is answered with
  400 "User already exists", which differs from the answer to a missing field.
\<close>

theorem register_duplicate:
  assumes "get_prop (req_body req) ''email'' = JStr e" and "e \<noteq> []"
      and "find_email e (users w) = Some existing"
  shows "users (snd (register L salt req w)) = users w \<and>
         find_email e (users (snd (register L salt req w))) = Some existing \<and>
         (\<forall>p. get_prop (req_body req) ''password'' = JStr p \<and> p \<noteq> [] \<longrightarrow>
            fst (register L salt req w) = Inr \<lparr>status = 400, body = Text ''User already exists''\<rparr>) \<and>
         \<lparr>status = 400, body = Text ''User already exists''\<rparr> \<noteq>
         \<lparr>status = 400, body = Text ''Email and password are required''\<rparr>"
proof -
  have taken: "find_email e (users (log Hash w)) = Some existing"
    using assms(3) by (simp add: log_def)
  have same: "users (snd (register L salt req w)) = users w"
    using assms(1) create_taken [OF taken]
    by (simp add: register_def Let_def hash_def log_def split: json.splits)
  have "fst (register L salt req w) = Inr \<lparr>status = 400, body = Text ''User already exists''\<rparr>"
    if "get_prop (req_body req) ''password'' = JStr p" and "p \<noteq> []" for p
    using register_valid [OF assms(1,2) that, of L salt w] create_taken [OF taken]
    by (simp add: send_def)
  with same assms(3) show ?thesis by simp
qed

theorem register_duplicate_witness:
  "register test_libs ''nacl'' (credentials ''a@x.com'' ''other'') alice_world =
     (Inr \<lparr>status = 400, body = Text ''User already exists''\<rparr>,
      alice_world\<lparr>calls := [Hash, Create]\<rparr>) \<and>
   users (snd (register test_libs ''nacl'' (credentials ''a@x.com'' ''other'') alice_world)) =
     users alice_world \<and>
   fst (register test_libs ''nacl'' (credentials ''a@x.com'' ''other'') alice_world) =
     Inr \<lparr>status = 400, body = Text ''User already exists''\<rparr>"
proof -
  have "get_prop (req_body (credentials ''a@x.com'' ''other'')) ''email'' = JStr ''a@x.com''"
    and "get_prop (req_body (credentials ''a@x.com'' ''other'')) ''password'' = JStr ''other''"
    and "find_email ''a@x.com'' (users alice_world) = Some (hd (users alice_world))"
    by (simp_all add: run_defs)
  from register_duplicate [OF this(1) _ this(3), of test_libs "''nacl''"] this(2)
  have "users (snd (register test_libs ''nacl'' (credentials ''a@x.com'' ''other'') alice_world)) =
          users alice_world"
    and "fst (register test_libs ''nacl'' (credentials ''a@x.com'' ''other'') alice_world) =
          Inr \<lparr>status = 400, body = Text ''User already exists''\<rparr>"
    by simp_all
  moreover have "register test_libs ''nacl'' (credentials ''a@x.com'' ''other'') alice_world =
     (Inr \<lparr>status = 400, body = Text ''User already exists''\<rparr>,
      alice_world\<lparr>calls := [Hash, Create]\<rparr>)"
    by (simp add: run_defs)
  ultimately show ?thesis by simp
qed

section \<open>Authentication and authorisation\<close>

text \<open>
  C5. On both protected routes \<open>authenticateJWT\<close> runs first. Without an
  Authorization header, or without a token in it, the answer is 401 Unauthorized; with
  a token whose signature does not verify, or whose expiry has passed (or that
  \<^verbatim>\<open>jwt.verify\<close> refuses for any other reason), it is 403 Forbidden; in both cases
  nothing after the middleware runs. With a token that
  verifies, the decoded claims are attached to the request, and only then do the
  admin check and the handlers run, on the request that carries them.
\<close>

theorem authenticateJWT_contract:
  "(bearer (authorization req) = None \<or> bearer (authorization req) = Some [] \<longrightarrow>
      authenticateJWT L secret now req = Sent \<lparr>status = 401, body = Text ''Unauthorized''\<rparr> \<and>
      get_user L secret now req = Sent \<lparr>status = 401, body = Text ''Unauthorized''\<rparr> \<and>
      get_admin L secret now req = Sent \<lparr>status = 401, body = Text ''Unauthorized''\<rparr>) \<and>
   (\<forall>t k. bearer (authorization req) = Some t \<and> t \<noteq> [] \<and> secret = Some k \<and>
      (jwt_decode L k t = None \<or>
       (\<exists>c x. jwt_decode L k t = Some c \<and> c_exp c = Some x \<and> x \<le> now)) \<longrightarrow>
      authenticateJWT L secret now req = Sent \<lparr>status = 403, body = Text ''Forbidden''\<rparr> \<and>
      get_user L secret now req = Sent \<lparr>status = 403, body = Text ''Forbidden''\<rparr> \<and>
      get_admin L secret now req = Sent \<lparr>status = 403, body = Text ''Forbidden''\<rparr>) \<and>
   (\<forall>t err. bearer (authorization req) = Some t \<and> t \<noteq> [] \<and> verify L t secret now = Inl err \<longrightarrow>
      authenticateJWT L secret now req = Sent \<lparr>status = 403, body = Text ''Forbidden''\<rparr>) \<and>
   (\<forall>t c. bearer (authorization req) = Some t \<and> t \<noteq> [] \<and> verify L t secret now = Inr c \<longrightarrow>
      authenticateJWT L secret now req = Next (req\<lparr>req_user := Some c\<rparr>) \<and>
      get_user L secret now req = user_handler (req\<lparr>req_user := Some c\<rparr>) \<and>
      get_admin L secret now req = chain [authorizeAdmin, admin_handler] (req\<lparr>req_user := Some c\<rparr>))"
  by (auto simp: authenticateJWT_def get_user_def get_admin_def sendStatus_def send_def verify_def
      user_handler_def split: option.splits step.splits)

theorem authenticateJWT_contract_witness:
  "get_user test_libs (Some ''k'') 2000 (credentials ''a@x.com'' ''pw1'') =
     Sent \<lparr>status = 401, body = Text ''Unauthorized''\<rparr> \<and>
   get_user test_libs (Some ''k'') 2000 (with_bearer ''forged'') =
     Sent \<lparr>status = 403, body = Text ''Forbidden''\<rparr> \<and>
   get_user test_libs (Some ''k'') 4600 (with_bearer ''jwt.user.k'') =
     Sent \<lparr>status = 403, body = Text ''Forbidden''\<rparr> \<and>
   authenticateJWT test_libs (Some ''k'') 2000 (with_bearer ''jwt.user.k'') =
     Next ((with_bearer ''jwt.user.k'')
       \<lparr>req_user := Some \<lparr>c_userId = JNum 1, c_role = JStr ''user'', c_iat = Some 1000,
                           c_nbf = None, c_exp = Some 4600\<rparr>\<rparr>)"
proof -
  have absent: "bearer (authorization (credentials ''a@x.com'' ''pw1'')) = None"
    by (simp add: credentials_def bearer_def)
  have forged: "bearer (authorization (with_bearer ''forged'')) = Some ''forged''"
    "jwt_decode test_libs ''k'' ''forged'' = None"
    by (simp_all add: with_bearer_def bearer_def test_libs_def)
  have token: "bearer (authorization (with_bearer ''jwt.user.k'')) = Some ''jwt.user.k''"
    by (simp add: with_bearer_def bearer_def)
  have expired: "jwt_decode test_libs ''k'' ''jwt.user.k'' =
      Some \<lparr>c_userId = JNum 1, c_role = JStr ''user'', c_iat = Some 1000,
            c_nbf = None, c_exp = Some 4600\<rparr>"
    by (simp add: test_libs_def)
  have valid: "verify test_libs ''jwt.user.k'' (Some ''k'') 2000 =
      Inr \<lparr>c_userId = JNum 1, c_role = JStr ''user'', c_iat = Some 1000,
           c_nbf = None, c_exp = Some 4600\<rparr>"
    by (simp add: verify_def test_libs_def)
  have "get_user test_libs (Some ''k'') 2000 (credentials ''a@x.com'' ''pw1'') =
      Sent \<lparr>status = 401, body = Text ''Unauthorized''\<rparr>"
    using authenticateJWT_contract [of "credentials ''a@x.com'' ''pw1''" test_libs "Some ''k''" 2000]
      absent by blast
  moreover have "get_user test_libs (Some ''k'') 2000 (with_bearer ''forged'') =
      Sent \<lparr>status = 403, body = Text ''Forbidden''\<rparr>"
    using authenticateJWT_contract [of "with_bearer ''forged''" test_libs "Some ''k''" 2000]
      forged by simp
  moreover have "get_user test_libs (Some ''k'') 4600 (with_bearer ''jwt.user.k'') =
      Sent \<lparr>status = 403, body = Text ''Forbidden''\<rparr>"
    using authenticateJWT_contract [of "with_bearer ''jwt.user.k''" test_libs "Some ''k''" 4600]
      token expired by simp
  moreover have "authenticateJWT test_libs (Some ''k'') 2000 (with_bearer ''jwt.user.k'') =
     Next ((with_bearer ''jwt.user.k'')
       \<lparr>req_user := Some \<lparr>c_userId = JNum 1, c_role = JStr ''user'', c_iat = Some 1000,
                           c_nbf = None, c_exp = Some 4600\<rparr>\<rparr>)"
    using authenticateJWT_contract [of "with_bearer ''jwt.user.k''" test_libs "Some ''k''" 2000]
      token valid by simp
  ultimately show ?thesis by simp
qed

text \<open>
  C6. A request whose token verifies and whose role claim is not \<^verbatim>\<open>"admin"\<close> is
  answered with 403 Forbidden on the admin route and with 200 on the user route.
\<close>

theorem non_admin_token:
  assumes "bearer (authorization req) = Some t" and "t \<noteq> []"
      and "verify L t secret now = Inr c"
      and "c_role c \<noteq> JStr ''admin''"
  shows "get_admin L secret now req = Sent \<lparr>status = 403, body = Text ''Forbidden''\<rparr> \<and>
         get_user L secret now req = Sent \<lparr>status = 200, body = Text ''Welcome User''\<rparr>"
  using assms
  by (simp add: get_admin_def get_user_def authenticateJWT_def authorizeAdmin_def
      user_handler_def sendStatus_def send_def)

theorem non_admin_token_witness:
  "get_admin test_libs (Some ''k'') 2000 (with_bearer ''jwt.user.k'') =
     Sent \<lparr>status = 403, body = Text ''Forbidden''\<rparr> \<and>
   get_user test_libs (Some ''k'') 2000 (with_bearer ''jwt.user.k'') =
     Sent \<lparr>status = 200, body = Text ''Welcome User''\<rparr>"
proof -
  have "bearer (authorization (with_bearer ''jwt.user.k'')) = Some ''jwt.user.k''"
    by (simp add: with_bearer_def bearer_def)
  moreover have "''jwt.user.k'' \<noteq> []" by simp
  moreover have "verify test_libs ''jwt.user.k'' (Some ''k'') 2000 =
      Inr \<lparr>c_userId = JNum 1, c_role = JStr ''user'', c_iat = Some 1000,
           c_nbf = None, c_exp = Some 4600\<rparr>"
    by (simp add: verify_def test_libs_def)
  moreover have "c_role \<lparr>c_userId = JNum 1, c_role = JStr ''user'', c_iat = Some 1000,
           c_nbf = None, c_exp = Some 4600\<rparr> \<noteq> JStr ''admin''"
    by simp
  ultimately show ?thesis
    by (rule non_admin_token)
qed

text \<open>
  C8. A token that a login at the time \<open>t0\<close> returned is the signed payload of a user
  of the store with the expiry \<open>t0 + 3600\<close>. When the codec decodes it back to that
  payload, \<open>authenticateJWT\<close> accepts it at every time before \<open>t0 + 3600\<close> and answers
  403 at every time from then on; the decision is a function of the token, the secret
  and the clock, and the store is not consulted.
\<close>

theorem token_lifetime:
  assumes "fst (login L secret t0 req w) =
             Inr \<lparr>status = 200, body = Json (JObj [(''token'', JStr T)])\<rparr>"
  shows "\<exists>u k. secret = Some k \<and> u \<in> set (users w) \<and>
           T = jwt_encode L k (issued u t0) \<and>
           c_exp (issued u t0) = Some (t0 + 3600) \<and>
           (jwt_decode L k T = Some (issued u t0) \<and> T \<noteq> [] \<and> CHR '' '' \<notin> set T \<longrightarrow>
              (\<forall>t rq. authorization rq = Some (''Bearer '' @ T) \<longrightarrow>
                 authenticateJWT L secret t rq =
                   (if t < t0 + 3600 then Next (rq\<lparr>req_user := Some (issued u t0)\<rparr>)
                    else Sent \<lparr>status = 403, body = Text ''Forbidden''\<rparr>)))"
proof -
  from login_token [OF assms] obtain u k where
    k: "secret = Some k" "k \<noteq> []" and u: "u \<in> set (users w)"
    and T: "T = jwt_encode L k (issued u t0)"
    by blast
  have exp: "c_exp (issued u t0) = Some (t0 + 3600)" and nbf: "c_nbf (issued u t0) = None"
    by (simp_all add: issued_def)
  have "authenticateJWT L secret t rq =
          (if t < t0 + 3600 then Next (rq\<lparr>req_user := Some (issued u t0)\<rparr>)
           else Sent \<lparr>status = 403, body = Text ''Forbidden''\<rparr>)"
    if "jwt_decode L k T = Some (issued u t0)" "T \<noteq> []" "CHR '' '' \<notin> set T"
      "authorization rq = Some (''Bearer '' @ T)" for t rq
    using authenticate_issued [OF that(1) nbf exp k(2) that(2,3,4), of t] k(1)
    by (simp add: sendStatus_def send_def)
  with k u T exp show ?thesis by blast
qed

theorem token_lifetime_witness:
  "fst (login test_libs (Some ''k'') 1000 (credentials ''a@x.com'' ''pw1'') alice_world) =
     Inr \<lparr>status = 200, body = Json (JObj [(''token'', JStr ''jwt.user.k'')])\<rparr> \<and>
   authenticateJWT test_libs (Some ''k'') 4599 (with_bearer ''jwt.user.k'') =
     Next ((with_bearer ''jwt.user.k'')\<lparr>req_user := Some (issued (hd (users alice_world)) 1000)\<rparr>) \<and>
   authenticateJWT test_libs (Some ''k'') 4600 (with_bearer ''jwt.user.k'') =
     Sent \<lparr>status = 403, body = Text ''Forbidden''\<rparr>"
proof -
  have run: "fst (login test_libs (Some ''k'') 1000 (credentials ''a@x.com'' ''pw1'') alice_world) =
     Inr \<lparr>status = 200, body = Json (JObj [(''token'', JStr ''jwt.user.k'')])\<rparr>"
    by (simp add: run_defs)
  from token_lifetime [OF run] obtain u k where
    k: "Some ''k'' = Some k" and u: "u \<in> set (users alice_world)"
    and rule: "jwt_decode test_libs k ''jwt.user.k'' = Some (issued u 1000) \<and>
        ''jwt.user.k'' \<noteq> [] \<and> CHR '' '' \<notin> set ''jwt.user.k'' \<longrightarrow>
        (\<forall>t rq. authorization rq = Some (''Bearer '' @ ''jwt.user.k'') \<longrightarrow>
           authenticateJWT test_libs (Some ''k'') t rq =
             (if t < 1000 + 3600 then Next (rq\<lparr>req_user := Some (issued u 1000)\<rparr>)
              else Sent \<lparr>status = 403, body = Text ''Forbidden''\<rparr>))"
    by blast
  from u have u_eq: "u = hd (users alice_world)"
    by (simp add: alice_world_def)
  have "jwt_decode test_libs k ''jwt.user.k'' = Some (issued u 1000)"
    using k by (simp add: u_eq test_libs_def issued_def alice_world_def)
  with rule have "\<And>t. authenticateJWT test_libs (Some ''k'') t (with_bearer ''jwt.user.k'') =
             (if t < 1000 + 3600
              then Next ((with_bearer ''jwt.user.k'')\<lparr>req_user := Some (issued u 1000)\<rparr>)
              else Sent \<lparr>status = 403, body = Text ''Forbidden''\<rparr>)"
    by (simp add: with_bearer_def)
  from this [of 4599] this [of 4600] run show ?thesis
    by (simp add: u_eq)
qed

section \<open>Self-assigned roles\<close>

text \<open>
  C10. A registration with a fresh email, a password and a non-empty role string is
  answered with 201 and stores the user with exactly that role. The request needs no
  credentials, so any client can register with the role \<^verbatim>\<open>"admin"\<close>; the token of a
  login with the same email and password is then accepted by the admin route (200
  "Welcome Admin") until it expires.
\<close>

theorem register_with_role:
  assumes "get_prop (req_body req) ''email'' = JStr e" and "e \<noteq> []"
      and "get_prop (req_body req) ''password'' = JStr p" and "p \<noteq> []"
      and "get_prop (req_body req) ''role'' = JStr r" and "r \<noteq> []"
      and "find_email e (users w) = None"
  shows "\<exists>u w1. register L salt req w = (Inr \<lparr>status = 201, body = Json (user_json u)\<rparr>, w1) \<and>
           users w1 = users w @ [u] \<and> u_email u = e \<and> u_role u = r \<and>
           (r = ''admin'' \<longrightarrow>
             (\<forall>req' k t0 T rq t.
                get_prop (req_body req') ''email'' = JStr e \<and>
                get_prop (req_body req') ''password'' = JStr p \<and>
                bcrypt_compare L p (bcrypt_hash L p 10 salt) \<and> k \<noteq> [] \<and>
                T = jwt_encode L k (issued u t0) \<and>
                jwt_decode L k T = Some (issued u t0) \<and> T \<noteq> [] \<and> CHR '' '' \<notin> set T \<and>
                authorization rq = Some (''Bearer '' @ T) \<and> t < t0 + 3600 \<longrightarrow>
                fst (login L (Some k) t0 req' w1) =
                  Inr \<lparr>status = 200, body = Json (JObj [(''token'', JStr T)])\<rparr> \<and>
                get_admin L (Some k) t rq = Sent \<lparr>status = 200, body = Text ''Welcome Admin''\<rparr>))"
proof -
  define u where "u = \<lparr>u_id = Suc (length (users w)), u_email = e,
                        u_password = bcrypt_hash L p 10 salt, u_role = r\<rparr>"
  define w1 where "w1 = (log Hash w)\<lparr>users := users w @ [u], calls := calls (log Hash w) @ [Create]\<rparr>"
  have role: "js_or (get_prop (req_body req) ''role'') (JStr ''user'') = JStr r"
    using assms(5,6) by (simp add: js_or_def)
  have fresh: "find_email e (users (log Hash w)) = None"
    using assms(7) by (simp add: log_def)
  have reg: "register L salt req w = (Inr \<lparr>status = 201, body = Json (user_json u)\<rparr>, w1)"
    using register_valid [OF assms(1-4), of L salt w] create_fresh [OF fresh]
    by (simp add: role u_def w1_def log_def)
  have stored: "users w1 = users w @ [u]" "u_email u = e" "u_role u = r"
    by (simp_all add: w1_def u_def)
  have found: "find_email e (users w1) = Some u"
    using find_email_append [OF assms(7), of u] by (simp add: w1_def u_def)
  have "fst (login L (Some k) t0 req' w1) =
          Inr \<lparr>status = 200, body = Json (JObj [(''token'', JStr T)])\<rparr> \<and>
        get_admin L (Some k) t rq = Sent \<lparr>status = 200, body = Text ''Welcome Admin''\<rparr>"
    if admin: "r = ''admin''"
      and req': "get_prop (req_body req') ''email'' = JStr e"
        "get_prop (req_body req') ''password'' = JStr p"
      and ok: "bcrypt_compare L p (bcrypt_hash L p 10 salt)" and k: "k \<noteq> []"
      and T: "T = jwt_encode L k (issued u t0)" "jwt_decode L k T = Some (issued u t0)"
        "T \<noteq> []" "CHR '' '' \<notin> set T"
      and rq: "authorization rq = Some (''Bearer '' @ T)" and t: "t < t0 + 3600"
    for req' k t0 T rq t
  proof -
    have ok': "bcrypt_compare L p (u_password u)"
      using ok by (simp add: u_def)
    have "fst (login L (Some k) t0 req' w1) =
            Inr \<lparr>status = 200, body = Json (JObj [(''token'', JStr T)])\<rparr>"
      using login_found [OF req' found ok' k, of t0] T(1) by simp
    moreover have "authenticateJWT L (Some k) t rq = Next (rq\<lparr>req_user := Some (issued u t0)\<rparr>)"
      using authenticate_issued [OF T(2) _ _ k T(3,4) rq, of "t0 + 3600" t] t
      by (simp add: issued_def)
    then have "get_admin L (Some k) t rq = Sent \<lparr>status = 200, body = Text ''Welcome Admin''\<rparr>"
      using admin
      by (simp add: get_admin_def authorizeAdmin_def admin_handler_def send_def issued_def u_def)
    ultimately show ?thesis by simp
  qed
  with reg stored show ?thesis by blast
qed

theorem register_with_role_witness:
  "\<exists>u w1. register test_libs ''salt'' (with_role ''admin'' (credentials ''a@x.com'' ''pw1''))
            empty_world = (Inr \<lparr>status = 201, body = Json (user_json u)\<rparr>, w1) \<and>
     u_role u = ''admin'' \<and>
     fst (login test_libs (Some ''k'') 1000 (credentials ''a@x.com'' ''pw1'') w1) =
       Inr \<lparr>status = 200, body = Json (JObj [(''token'', JStr ''jwt.admin.k'')])\<rparr> \<and>
     get_admin test_libs (Some ''k'') 2000 (with_bearer ''jwt.admin.k'') =
       Sent \<lparr>status = 200, body = Text ''Welcome Admin''\<rparr>"
proof -
  let ?req = "with_role ''admin'' (credentials ''a@x.com'' ''pw1'')"
  let ?req' = "credentials ''a@x.com'' ''pw1''"
  have body: "get_prop (req_body ?req) ''email'' = JStr ''a@x.com''"
    "''a@x.com'' \<noteq> []"
    "get_prop (req_body ?req) ''password'' = JStr ''pw1''"
    "''pw1'' \<noteq> []"
    "get_prop (req_body ?req) ''role'' = JStr ''admin''"
    "''admin'' \<noteq> []"
    "find_email ''a@x.com'' (users empty_world) = None"
    by (simp_all add: with_role_def run_defs)
  from register_with_role [OF body, of test_libs "''salt''"] obtain u w1 where
    reg: "register test_libs ''salt'' ?req empty_world =
            (Inr \<lparr>status = 201, body = Json (user_json u)\<rparr>, w1)"
    and stored: "users w1 = users empty_world @ [u]" "u_role u = ''admin''"
    and rule: "\<And>req' k t0 T rq t.
        get_prop (req_body req') ''email'' = JStr ''a@x.com'' \<and>
        get_prop (req_body req') ''password'' = JStr ''pw1'' \<and>
        bcrypt_compare test_libs ''pw1'' (bcrypt_hash test_libs ''pw1'' 10 ''salt'') \<and> k \<noteq> [] \<and>
        T = jwt_encode test_libs k (issued u t0) \<and>
        jwt_decode test_libs k T = Some (issued u t0) \<and> T \<noteq> [] \<and> CHR '' '' \<notin> set T \<and>
        authorization rq = Some (''Bearer '' @ T) \<and> t < t0 + 3600 \<Longrightarrow>
        fst (login test_libs (Some k) t0 req' w1) =
          Inr \<lparr>status = 200, body = Json (JObj [(''token'', JStr T)])\<rparr> \<and>
        get_admin test_libs (Some k) t rq = Sent \<lparr>status = 200, body = Text ''Welcome Admin''\<rparr>"
    by blast
  have "users (snd (register test_libs ''salt'' ?req empty_world)) =
      [\<lparr>u_id = 1, u_email = ''a@x.com'', u_password = ''salt1wp'', u_role = ''admin''\<rparr>]"
    by (simp add: with_role_def run_defs)
  with reg stored have u: "u = \<lparr>u_id = 1, u_email = ''a@x.com'', u_password = ''salt1wp'',
      u_role = ''admin''\<rparr>"
    by (simp add: empty_world_def)
  have "fst (login test_libs (Some ''k'') 1000 ?req' w1) =
          Inr \<lparr>status = 200, body = Json (JObj [(''token'', JStr ''jwt.admin.k'')])\<rparr> \<and>
        get_admin test_libs (Some ''k'') 2000 (with_bearer ''jwt.admin.k'') =
          Sent \<lparr>status = 200, body = Text ''Welcome Admin''\<rparr>"
    by (rule rule) (simp add: u issued_def with_bearer_def run_defs)
  with reg stored show ?thesis by blast
qed

end
